theory Spec2Isabelle
  imports Main "HOL-Library.Word" "HOL-Library.Sublist" "HOL-Library.AList"
begin

section \<open>Text: bytes, decoding, splitting, stripping\<close>

text \<open>
  The module \<^verbatim>\<open>panoramisk/manager.py\<close> receives \<^verbatim>\<open>bytes\<close> and works on \<^verbatim>\<open>str\<close>.
  A byte is an 8-bit word; a \<^verbatim>\<open>str\<close> is a list of Unicode code points.
\<close>

type_synonym byte = "8 word"
type_synonym str = "nat list"

definition of_string :: "string \<Rightarrow> str" where
  "of_string s = map of_char s"

definition to_bytes :: "string \<Rightarrow> byte list" where
  "to_bytes s = map of_char s"

text \<open>
  The encodings covered: \<^verbatim>\<open>'ascii'\<close> (the default of \<^verbatim>\<open>getattr(self, 'encoding', 'ascii')\<close>
  in \<^verbatim>\<open>Connection.data_received\<close>), \<^verbatim>\<open>'utf8'\<close> (the default of \<^verbatim>\<open>Manager.defaults\<close>)
  and \<^verbatim>\<open>'latin-1'\<close>.
\<close>

datatype encoding = Ascii | Utf8 | Latin1

definition is_cont :: "byte \<Rightarrow> bool" where
  "is_cont b = (0x80 \<le> b \<and> b < 0xC0)"

definition cp2 :: "byte \<Rightarrow> byte \<Rightarrow> nat" where
  "cp2 b1 b2 = (unat b1 - 0xC0) * 64 + (unat b2 - 0x80)"

definition cp3 :: "byte \<Rightarrow> byte \<Rightarrow> byte \<Rightarrow> nat" where
  "cp3 b1 b2 b3 = (unat b1 - 0xE0) * 4096 + (unat b2 - 0x80) * 64 + (unat b3 - 0x80)"

definition cp4 :: "byte \<Rightarrow> byte \<Rightarrow> byte \<Rightarrow> byte \<Rightarrow> nat" where
  "cp4 b1 b2 b3 b4 =
     (unat b1 - 0xF0) * 262144 + (unat b2 - 0x80) * 4096 + (unat b3 - 0x80) * 64 + (unat b4 - 0x80)"

text \<open>
  \<^verbatim>\<open>bytes.decode('utf8', 'ignore')\<close>: a well-formed sequence gives its code point; an
  invalid start byte is skipped; at an invalid continuation byte the bytes before it are
  skipped and decoding resumes at that byte; a sequence cut by the end of the data is
  skipped whole (\<^emph>\<open>unexpected end of data\<close>).
\<close>

definition bad2_3 :: "byte \<Rightarrow> byte \<Rightarrow> bool" where
  "bad2_3 b1 b2 = (if is_cont b2 then (if b2 < 0xA0 then b1 = 0xE0 else b1 = 0xED) else True)"

definition bad2_4 :: "byte \<Rightarrow> byte \<Rightarrow> bool" where
  "bad2_4 b1 b2 = (if is_cont b2 then (if b2 < 0x90 then b1 = 0xF0 else b1 = 0xF4) else True)"

fun utf8_ignore :: "byte list \<Rightarrow> str" where
  "utf8_ignore [] = []"
| "utf8_ignore (b1 # bs) =
     (if b1 < 0x80 then unat b1 # utf8_ignore bs
      else if b1 < 0xC2 then utf8_ignore bs
      else if b1 < 0xE0 then
        (case bs of
           [] \<Rightarrow> []
         | b2 # r2 \<Rightarrow> if is_cont b2 then cp2 b1 b2 # utf8_ignore r2 else utf8_ignore bs)
      else if b1 < 0xF0 then
        (case bs of
           [] \<Rightarrow> []
         | b2 # r2 \<Rightarrow>
             if bad2_3 b1 b2 then utf8_ignore bs
             else (case r2 of
                     [] \<Rightarrow> []
                   | b3 # r3 \<Rightarrow>
                       if is_cont b3 then cp3 b1 b2 b3 # utf8_ignore r3 else utf8_ignore r2))
      else if b1 < 0xF5 then
        (case bs of
           [] \<Rightarrow> []
         | b2 # r2 \<Rightarrow>
             if bad2_4 b1 b2 then utf8_ignore bs
             else (case r2 of
                     [] \<Rightarrow> []
                   | b3 # r3 \<Rightarrow>
                       if \<not> is_cont b3 then utf8_ignore r2
                       else (case r3 of
                               [] \<Rightarrow> []
                             | b4 # r4 \<Rightarrow>
                                 if is_cont b4 then cp4 b1 b2 b3 b4 # utf8_ignore r4
                                 else utf8_ignore r3)))
      else utf8_ignore bs)"

text \<open>\<^verbatim>\<open>data.decode(encoding, 'ignore')\<close>.\<close>

fun decode :: "encoding \<Rightarrow> byte list \<Rightarrow> str" where
  "decode Ascii bs = map unat (filter (\<lambda>b. b < 0x80) bs)"
| "decode Latin1 bs = map unat bs"
| "decode Utf8 bs = utf8_ignore bs"

text \<open>
  \<^verbatim>\<open>str.split(sep)\<close> with a non-empty separator: the occurrences of \<^verbatim>\<open>sep\<close> are found
  from left to right without overlap; \<open>acc\<close> is the fragment read so far. An empty
  separator raises \<^verbatim>\<open>ValueError\<close>, which the caller models.
\<close>

function str_split :: "'a list \<Rightarrow> 'a list \<Rightarrow> 'a list \<Rightarrow> 'a list list" where
  "str_split sep acc [] = [acc]"
| "str_split sep acc (c # cs) =
     (if sep \<noteq> [] \<and> prefix sep (c # cs)
      then acc # str_split sep [] (drop (length sep) (c # cs))
      else str_split sep (acc @ [c]) cs)"
  by pat_completeness auto
termination
  by (relation "measure (\<lambda>(sep, acc, s). length s)") (auto simp: neq_Nil_conv)

text \<open>\<^verbatim>\<open>str.isspace\<close> on one code point, and \<^verbatim>\<open>str.strip()\<close>.\<close>

definition py_isspace :: "nat \<Rightarrow> bool" where
  "py_isspace c =
     ((9 \<le> c \<and> c \<le> 13) \<or> (28 \<le> c \<and> c \<le> 32) \<or> c = 133 \<or> c = 160 \<or> c = 5760 \<or>
      (8192 \<le> c \<and> c \<le> 8202) \<or> c = 8232 \<or> c = 8233 \<or> c = 8239 \<or> c = 8287 \<or> c = 12288)"

definition py_strip :: "str \<Rightarrow> str" where
  "py_strip s = rev (dropWhile py_isspace (rev (dropWhile py_isspace s)))"

section \<open>Messages, actions, transports\<close>

text \<open>A reference to a \<^verbatim>\<open>Manager\<close> object.\<close>

type_synonym mref = nat

datatype error =
  ValueError | KeyError | AttributeError | OSError | TransportError | CallbackError | FutureError

text \<open>
  Modelled from the spec: \<^verbatim>\<open>Message\<close> (\<^verbatim>\<open>panoramisk/message.py\<close> is not among the
  sources). The record holds the ordered key-value content of a decoded block and what
  \<^verbatim>\<open>manager.py\<close> reads from a message (\<^verbatim>\<open>message.id\<close>, \<^verbatim>\<open>'Event' in message\<close>,
  \<^verbatim>\<open>message.event\<close>, \<^verbatim>\<open>message.success\<close>) and writes to it (\<^verbatim>\<open>message.manager\<close>).
\<close>

record 'k message =
  headers :: "(str \<times> str) list"
  msg_id :: 'k
  has_event :: bool
  event :: str
  success :: bool
  manager :: "mref option"

text \<open>A completion handle (\<^verbatim>\<open>asyncio.Future\<close>) and what it resolves to.\<close>

datatype 'k result = Single "'k message" | Multi "'k message list"

datatype 'r future = Pending | Resolved 'r | Failed error

text \<open>
  Modelled from the spec: \<^verbatim>\<open>Action\<close> (\<^verbatim>\<open>panoramisk/actions.py\<close> is not among the
  sources): an identifier fixed at creation, a completion handle, and the rest of its
  state (name, parameters, list-mode flag, accumulated messages).
\<close>

record ('k, 's) action =
  act_id :: 'k
  future :: "'k result future"
  act_state :: 's

text \<open>
  The transport is a collaborator (\<^verbatim>\<open>asyncio\<close>): \<^verbatim>\<open>write\<close> appends to what was
  written, \<^verbatim>\<open>close\<close> closes it or raises (\<open>t_close_raises\<close>; \<^verbatim>\<open>Connection.close\<close>
  guards it with \<^verbatim>\<open>try\<close>/\<^verbatim>\<open>finally\<close>).
\<close>

record transport =
  t_closed :: bool
  t_written :: "byte list list"
  t_close_raises :: bool

text \<open>
  What \<^verbatim>\<open>manager.py\<close> uses and does not define: \<^verbatim>\<open>utils.EOL\<close>,
  \<^verbatim>\<open>Message.from_line\<close>, the constructors \<^verbatim>\<open>actions.Action\<close>/\<^verbatim>\<open>actions.Command\<close>
  (\<open>mk_action is_command data as_list\<close>), \<^verbatim>\<open>str(action).encode('utf8')\<close>,
  \<^verbatim>\<open>Action.add_message\<close> (whether the action completed, its completion handle and its
  state afterwards), \<^verbatim>\<open>Action.update\<close>, \<^verbatim>\<open>re.compile(fnmatch.translate(pattern))\<close> as a predicate on the
  matched string, and whether a subscriber's callback raises on an event.
\<close>

record ('k, 's, 'cb) deps =
  EOL :: str
  from_line :: "str \<Rightarrow> 'k message option"
  mk_action :: "bool \<Rightarrow> (str \<times> str) list \<Rightarrow> bool \<Rightarrow> ('k, 's) action"
  serialize :: "('k, 's) action \<Rightarrow> byte list"
  add_message :: "('k, 's) action \<Rightarrow> 'k message \<Rightarrow> bool \<times> 'k result future \<times> 's"
  act_update :: "('k, 's) action \<Rightarrow> (str \<times> str) list \<Rightarrow> ('k, 's) action"
  compile :: "str \<Rightarrow> str \<Rightarrow> bool"
  raises :: "'cb \<Rightarrow> 'k message \<Rightarrow> bool"

section \<open>Connection\<close>

text \<open>
  \<open>queue\<close> is \<^verbatim>\<open>utils.Queue()\<close>, a FIFO: \<^verbatim>\<open>empty()\<close> is \<open>queue c = []\<close>,
  \<^verbatim>\<open>get_nowait()\<close> takes the head, \<^verbatim>\<open>put_nowait(x)\<close> appends. \<open>encoding = None\<close> is
  a connection without the attribute \<^verbatim>\<open>encoding\<close>.
\<close>

record ('k, 's) connection =
  transport :: transport
  closed :: bool
  queue :: "str list"
  responses :: "'k \<rightharpoonup> ('k, 's) action"
  factory :: "mref option"
  encoding :: "encoding option"

definition Connection_connection_made :: "transport \<Rightarrow> ('k, 's) connection" where
  "Connection_connection_made t =
     \<lparr>transport = t, closed = False, queue = [], responses = Map.empty, factory = None,
      encoding = None\<rparr>"

datatype ('k, 's) payload = Dict "(str \<times> str) list" | Act "('k, 's) action"

text \<open>\<^verbatim>\<open>Connection.send\<close>; the value returned is the action's completion handle, named by
  the action's identifier.\<close>

definition send ::
  "('k, 's, 'cb) deps \<Rightarrow> ('k, 's) connection \<Rightarrow> ('k, 's) payload \<Rightarrow> bool \<Rightarrow> ('k, 's) connection \<times> 'k"
where
  "send D c data as_list =
     (let a = (case data of
                 Act a \<Rightarrow> a
               | Dict d \<Rightarrow> mk_action D (of_string ''Command'' \<in> fst ` set d) d as_list);
          t = transport c
      in (c\<lparr>transport := t\<lparr>t_written := t_written t @ [serialize D a]\<rparr>,
            responses := (responses c)(act_id a \<mapsto> a)\<rparr>,
          act_id a))"

text \<open>\<^verbatim>\<open>Connection.close\<close>: the state afterwards and the exception raised, if any.\<close>

definition Connection_close :: "('k, 's) connection \<Rightarrow> ('k, 's) connection \<times> error option" where
  "Connection_close c =
     (if \<not> closed c then
        (if t_close_raises (transport c) then (c\<lparr>closed := True\<rparr>, Some TransportError)
         else (c\<lparr>transport := (transport c)\<lparr>t_closed := True\<rparr>, closed := True\<rparr>, None))
      else (c, None))"

text \<open>
  What a method does besides changing the objects: \<^verbatim>\<open>time.sleep(n)\<close>, which blocks the
  caller for \<open>n\<close> seconds; \<^verbatim>\<open>loop.call_later(n, f)\<close>, which returns at once and schedules
  \<open>f\<close>; the call \<^verbatim>\<open>factory.connect()\<close>; \<^verbatim>\<open>future.add_done_callback(self.login)\<close>;
  \<^verbatim>\<open>log.exception\<close>.
\<close>

datatype timer = Ping | Reconnect

datatype 'k effect =
  Sleep nat | CallLater nat timer | Connect mref | AddDoneCallbackLogin 'k | LogException error

text \<open>\<^verbatim>\<open>Connection.connection_lost\<close>.\<close>

definition connection_lost ::
  "('k, 's) connection \<Rightarrow> ('k, 's) connection \<times> 'k effect list \<times> error option"
where
  "connection_lost c =
     (if \<not> closed c then
        (case Connection_close c of
           (c', Some e) \<Rightarrow> (c', [], Some e)
         | (c', None) \<Rightarrow>
             (case factory c' of
                None \<Rightarrow> (c', [Sleep 2], Some AttributeError)
              | Some f \<Rightarrow> (c', [Sleep 2, Connect f], None)))
      else (c, [], None))"

section \<open>Manager: the event registry\<close>

text \<open>
  \<open>username = None\<close> and \<open>secret = None\<close> are a configuration without these keys.
\<close>

record config =
  host :: str
  port :: int
  ssl :: bool
  cfg_encoding :: encoding
  username :: "str option"
  secret :: "str option"

definition defaults :: config where
  "defaults =
     \<lparr>host = of_string ''127.0.0.1'', port = 5038, ssl = False, cfg_encoding = Utf8,
      username = None, secret = None\<rparr>"

text \<open>
  \<open>patterns\<close> is the list of pairs (pattern, compiled matcher); \<open>callbacks\<close> is the
  \<^verbatim>\<open>defaultdict(list)\<close>, a missing key reading as the empty list. The attribute
  \<^verbatim>\<open>Manager.responses\<close> is the same dictionary object as the \<^verbatim>\<open>responses\<close> of the
  protocol and is read there.
\<close>

record ('k, 's, 'cb) manager =
  config :: config
  protocol :: "('k, 's) connection option"
  patterns :: "(str \<times> (str \<Rightarrow> bool)) list"
  callbacks :: "str \<Rightarrow> 'cb list"
  authenticated :: bool
  authenticated_future :: "'k option"
  mgr_encoding :: "encoding option"

definition Manager_init :: "config \<Rightarrow> ('k, 's, 'cb) manager" where
  "Manager_init cfg =
     \<lparr>config = cfg, protocol = None, patterns = [], callbacks = (\<lambda>_. []),
      authenticated = False, authenticated_future = None, mgr_encoding = None\<rparr>"

text \<open>The inner function \<^verbatim>\<open>_register_event\<close> of \<^verbatim>\<open>Manager.register_event\<close>.\<close>

definition inner_register_event ::
  "('k, 's, 'cb) deps \<Rightarrow> str \<Rightarrow> ('k, 's, 'cb) manager \<Rightarrow> 'cb \<Rightarrow> ('k, 's, 'cb) manager \<times> 'cb"
where
  "inner_register_event D pattern m callback =
     (m\<lparr>patterns := patterns m @ [(pattern, compile D pattern)],
        callbacks := (callbacks m)(pattern := callbacks m pattern @ [callback])\<rparr>,
      callback)"

text \<open>
  \<^verbatim>\<open>Manager.register_event\<close> returns the callback, or, when the callback is omitted, the
  inner function itself, which acts on the manager as it is when the function is applied.
\<close>

datatype ('k, 's, 'cb) registered =
  Returned 'cb
| Registrar "('k, 's, 'cb) manager \<Rightarrow> 'cb \<Rightarrow> ('k, 's, 'cb) manager \<times> 'cb"

definition register_event ::
  "('k, 's, 'cb) deps \<Rightarrow> ('k, 's, 'cb) manager \<Rightarrow> str \<Rightarrow> 'cb option \<Rightarrow>
   ('k, 's, 'cb) manager \<times> ('k, 's, 'cb) registered"
where
  "register_event D m pattern callback =
     (case callback of
        Some cb \<Rightarrow> (case inner_register_event D pattern m cb of (m', r) \<Rightarrow> (m', Returned r))
      | None \<Rightarrow> (m, Registrar (inner_register_event D pattern)))"

text \<open>A call \<^verbatim>\<open>callback(event, self)\<close>.\<close>

type_synonym ('k, 'cb) call = "'cb \<times> 'k message \<times> mref"

text \<open>The loop of line 246 of \<^verbatim>\<open>Manager.dispatch\<close>: the calls made and the exception
  raised by a callback, if any.\<close>

fun invoke ::
  "('k, 's, 'cb) deps \<Rightarrow> mref \<Rightarrow> 'k message \<Rightarrow> 'cb list \<Rightarrow> ('k, 'cb) call list \<times> error option"
where
  "invoke D self ev [] = ([], None)"
| "invoke D self ev (callback # cbs) =
     (if raises D callback ev then ([(callback, ev, self)], Some CallbackError)
      else (case invoke D self ev cbs of (calls, r) \<Rightarrow> ((callback, ev, self) # calls, r)))"

text \<open>The loop of line 245, over the same list, whose body is the loop of line 246.\<close>

fun invoke_each ::
  "('k, 's, 'cb) deps \<Rightarrow> mref \<Rightarrow> 'k message \<Rightarrow> 'cb list \<Rightarrow> 'cb list \<Rightarrow>
   ('k, 'cb) call list \<times> error option"
where
  "invoke_each D self ev cbs [] = ([], None)"
| "invoke_each D self ev cbs (callback # outer) =
     (case invoke D self ev cbs of
        (calls, Some e) \<Rightarrow> (calls, Some e)
      | (calls, None) \<Rightarrow>
          (case invoke_each D self ev cbs outer of (calls', r) \<Rightarrow> (calls @ calls', r)))"

text \<open>The loop of line 241 over \<^verbatim>\<open>self.patterns\<close>: the matches collected, the calls made
  and the exception raised, if any.\<close>

fun dispatch_loop ::
  "('k, 's, 'cb) deps \<Rightarrow> mref \<Rightarrow> (str \<Rightarrow> 'cb list) \<Rightarrow> 'k message \<Rightarrow> (str \<times> (str \<Rightarrow> bool)) list \<Rightarrow>
   str list \<times> ('k, 'cb) call list \<times> error option"
where
  "dispatch_loop D self cbs ev [] = ([], [], None)"
| "dispatch_loop D self cbs ev ((pattern, regexp) # rest) =
     (if regexp (event ev) then
        (case invoke_each D self ev (cbs pattern) (cbs pattern) of
           (calls, Some e) \<Rightarrow> ([pattern], calls, Some e)
         | (calls, None) \<Rightarrow>
             (case dispatch_loop D self cbs ev rest of
                (matches, calls', r) \<Rightarrow> (pattern # matches, calls @ calls', r)))
      else dispatch_loop D self cbs ev rest)"

text \<open>
  \<^verbatim>\<open>Manager.dispatch\<close>: the event as the call leaves it, the calls made, and the list
  returned or the exception raised.
\<close>

definition dispatch ::
  "('k, 's, 'cb) deps \<Rightarrow> mref \<Rightarrow> ('k, 's, 'cb) manager \<Rightarrow> 'k message \<Rightarrow>
   'k message \<times> ('k, 'cb) call list \<times> (error + str list)"
where
  "dispatch D self m event0 =
     (let ev = event0\<lparr>manager := Some self\<rparr>
      in (case dispatch_loop D self (callbacks m) ev (patterns m) of
            (matches, calls, Some e) \<Rightarrow> (ev, calls, Inl e)
          | (matches, calls, None) \<Rightarrow> (ev, calls, Inr matches)))"

section \<open>Connection: receiving data\<close>

text \<open>
  Lines 36 to 43 of \<^verbatim>\<open>Connection.data_received\<close>: decode the chunk, put the text taken
  from the queue in front of it, split at \<^verbatim>\<open>EOL+EOL\<close>, put the last fragment back. The
  result is the connection and the list \<^verbatim>\<open>lines\<close> the loop runs over, or the
  \<^verbatim>\<open>ValueError\<close> of a split at an empty separator.
\<close>

definition feed ::
  "('k, 's, 'cb) deps \<Rightarrow> ('k, 's) connection \<Rightarrow> byte list \<Rightarrow> ('k, 's) connection \<times> (error + str list)"
where
  "feed D c data0 =
     (let data = decode (case encoding c of None \<Rightarrow> Ascii | Some e \<Rightarrow> e) data0;
          (data, q) = (case queue c of [] \<Rightarrow> (data, []) | x # q \<Rightarrow> (x @ data, q));
          c1 = c\<lparr>queue := q\<rparr>
      in if EOL D @ EOL D = [] then (c1, Inl ValueError)
         else (let lines = str_split (EOL D @ EOL D) [] data
               in (c1\<lparr>queue := q @ [last lines]\<rparr>, Inr (butlast lines))))"

text \<open>
  Lines 54 to 60, for one message: \<open>mgr\<close> is the \<^verbatim>\<open>Manager\<close> object that \<open>factory c\<close>
  refers to. The action found in the table is changed in place by \<^verbatim>\<open>add_message\<close>;
  \<^verbatim>\<open>self.responses.pop(response.id)\<close> raises \<^verbatim>\<open>KeyError\<close> at a missing key.
\<close>

definition route ::
  "('k, 's, 'cb) deps \<Rightarrow> ('k, 's, 'cb) manager \<Rightarrow> ('k, 's) connection \<Rightarrow> 'k message \<Rightarrow>
   ('k, 's) connection \<times> ('k, 'cb) call list \<times> error option"
where
  "route D mgr c m =
     (case responses c (msg_id m) of
        Some response \<Rightarrow>
          (case add_message D response m of
             (completed, fut, st) \<Rightarrow>
               (let response' = response\<lparr>future := fut, act_state := st\<rparr>;
                    c' = c\<lparr>responses := (responses c)(msg_id m \<mapsto> response')\<rparr>
                in if completed then
                     (if responses c' (act_id response') = None then (c', [], Some KeyError)
                      else (c'\<lparr>responses := (responses c')(act_id response' := None)\<rparr>, [], None))
                   else (c', [], None)))
      | None \<Rightarrow>
          (if has_event m then
             (case factory c of
                None \<Rightarrow> (c, [], Some AttributeError)
              | Some self \<Rightarrow>
                  (case dispatch D self mgr m of
                     (ev, calls, Inl e) \<Rightarrow> (c, calls, Some e)
                   | (ev, calls, Inr matches) \<Rightarrow> (c, calls, None)))
           else (c, [], None)))"

text \<open>The loop of lines 44 to 60 over \<^verbatim>\<open>lines\<close>.\<close>

fun process_lines ::
  "('k, 's, 'cb) deps \<Rightarrow> ('k, 's, 'cb) manager \<Rightarrow> ('k, 's) connection \<Rightarrow> str list \<Rightarrow>
   ('k, 's) connection \<times> ('k, 'cb) call list \<times> error option"
where
  "process_lines D mgr c [] = (c, [], None)"
| "process_lines D mgr c (line # lines) =
     (case from_line D (py_strip line) of
        None \<Rightarrow> process_lines D mgr c lines
      | Some message \<Rightarrow>
          (case route D mgr c message of
             (c', calls, Some e) \<Rightarrow> (c', calls, Some e)
           | (c', calls, None) \<Rightarrow>
               (case process_lines D mgr c' lines of
                  (c'', calls', r) \<Rightarrow> (c'', calls @ calls', r))))"

text \<open>\<^verbatim>\<open>Connection.data_received\<close>: the connection afterwards, the callbacks called, and
  the exception raised, if any.\<close>

definition data_received ::
  "('k, 's, 'cb) deps \<Rightarrow> ('k, 's, 'cb) manager \<Rightarrow> ('k, 's) connection \<Rightarrow> byte list \<Rightarrow>
   ('k, 's) connection \<times> ('k, 'cb) call list \<times> error option"
where
  "data_received D mgr c data =
     (case feed D c data of
        (c1, Inl e) \<Rightarrow> (c1, [], Some e)
      | (c1, Inr lines) \<Rightarrow> process_lines D mgr c1 lines)"

text \<open>
  The messages decoded by one call of \<^verbatim>\<open>data_received\<close> (the values of \<^verbatim>\<open>message\<close> at
  line 49 that are not \<^verbatim>\<open>None\<close>), and by a sequence of calls, one per chunk, on a
  connection whose queue is carried from call to call.
\<close>

definition decoded :: "('k, 's, 'cb) deps \<Rightarrow> str list \<Rightarrow> 'k message list" where
  "decoded D lines = List.map_filter (\<lambda>line. from_line D (py_strip line)) lines"

fun decoded_chunks ::
  "('k, 's, 'cb) deps \<Rightarrow> ('k, 's) connection \<Rightarrow> byte list list \<Rightarrow> error + 'k message list"
where
  "decoded_chunks D c [] = Inr []"
| "decoded_chunks D c (chunk # chunks) =
     (case feed D c chunk of
        (c1, Inl e) \<Rightarrow> Inl e
      | (c1, Inr lines) \<Rightarrow>
          (case decoded_chunks D c1 chunks of
             Inl e \<Rightarrow> Inl e
           | Inr ms \<Rightarrow> Inr (decoded D lines @ ms)))"

section \<open>Manager: connecting, authenticating, closing\<close>

text \<open>\<^verbatim>\<open>action.update(kwargs)\<close>: on a dictionary, each key is replaced where it stands or
  added at the end.\<close>

definition update_payload :: "('k, 's, 'cb) deps \<Rightarrow> ('k, 's) payload \<Rightarrow> (str \<times> str) list \<Rightarrow> ('k, 's) payload" where
  "update_payload D data kwargs =
     (case data of
        Dict d \<Rightarrow> Dict (fold (\<lambda>(k, v). AList.update k v) kwargs d)
      | Act a \<Rightarrow> Act (act_update D a kwargs))"

text \<open>\<^verbatim>\<open>Manager.send_action\<close>: without a protocol, \<^verbatim>\<open>self.protocol.send\<close> raises
  \<^verbatim>\<open>AttributeError\<close>.\<close>

definition send_action ::
  "('k, 's, 'cb) deps \<Rightarrow> ('k, 's, 'cb) manager \<Rightarrow> ('k, 's) payload \<Rightarrow> bool \<Rightarrow> (str \<times> str) list \<Rightarrow>
   ('k, 's, 'cb) manager \<times> (error + 'k)"
where
  "send_action D m action as_list kwargs =
     (case protocol m of
        None \<Rightarrow> (m, Inl AttributeError)
      | Some p \<Rightarrow>
          (case send D p (update_payload D action kwargs) as_list of
             (p', fut) \<Rightarrow> (m\<lparr>protocol := Some p'\<rparr>, Inr fut)))"

text \<open>The dictionary of the \<^verbatim>\<open>Login\<close> action built at lines 129 to 131.\<close>

definition login_action :: "str \<Rightarrow> str \<Rightarrow> (str \<times> str) list" where
  "login_action u s =
     [(of_string ''Action'', of_string ''Login''), (of_string ''Username'', u),
      (of_string ''Secret'', s)]"

text \<open>
  \<^verbatim>\<open>Manager.connection_made\<close>: \<open>f\<close> is what \<^verbatim>\<open>f.result()\<close> gives, the new protocol (which
  holds its transport) or the exception raised. The result is the manager afterwards, the
  effects, and the exception raised, if any.
\<close>

definition Manager_connection_made ::
  "('k, 's, 'cb) deps \<Rightarrow> mref \<Rightarrow> ('k, 's, 'cb) manager \<Rightarrow> (error + ('k, 's) connection) \<Rightarrow>
   ('k, 's, 'cb) manager \<times> 'k effect list \<times> error option"
where
  "Manager_connection_made D self m0 f =
     (case (case protocol m0 of
              None \<Rightarrow> (m0, None)
            | Some p \<Rightarrow> (case Connection_close p of (p', r) \<Rightarrow> (m0\<lparr>protocol := Some p'\<rparr>, r))) of
        (m, Some e) \<Rightarrow> (m, [], Some e)
      | (m, None) \<Rightarrow>
          (case f of
             Inl e \<Rightarrow>
               (if e = OSError then (m, [LogException e, CallLater 2 Reconnect], None)
                else (m, [], Some e))
           | Inr protocol0 \<Rightarrow>
               (let enc = cfg_encoding (config m);
                    m1 = m\<lparr>protocol :=
                             Some (protocol0\<lparr>queue := [], factory := Some self,
                                     encoding := Some enc, responses := Map.empty\<rparr>),
                           mgr_encoding := Some enc\<rparr>
                in (case username (config m1) of
                      None \<Rightarrow> (m1, [CallLater 10 Ping], None)
                    | Some u \<Rightarrow>
                        (let m2 = m1\<lparr>authenticated := False\<rparr>
                         in (case secret (config m2) of
                               None \<Rightarrow> (m2, [], Some KeyError)
                             | Some s \<Rightarrow>
                                 (case send_action D m2 (Dict (login_action u s)) False [] of
                                    (m3, Inl e) \<Rightarrow> (m3, [], Some e)
                                  | (m3, Inr fut) \<Rightarrow>
                                      (m3\<lparr>authenticated_future := Some fut\<rparr>,
                                       [AddDoneCallbackLogin fut, CallLater 10 Ping], None))))))))"

text \<open>
  \<^verbatim>\<open>Manager.login\<close>: \<open>fut\<close> is the state of the future passed; \<^verbatim>\<open>future.result()\<close>
  raises on a future that is failed or not done, and a list has no attribute
  \<^verbatim>\<open>success\<close>. The result is the manager afterwards and the value returned or the
  exception raised.
\<close>

definition login ::
  "('k, 's, 'cb) manager \<Rightarrow> 'k result future \<Rightarrow> ('k, 's, 'cb) manager \<times> (error + bool)"
where
  "login m0 fut =
     (let m = m0\<lparr>authenticated_future := None\<rparr>
      in (case fut of
            Pending \<Rightarrow> (m, Inl FutureError)
          | Failed e \<Rightarrow> (m, Inl e)
          | Resolved (Multi rs) \<Rightarrow> (m, Inl AttributeError)
          | Resolved (Single resp) \<Rightarrow>
              (m\<lparr>authenticated := success resp\<rparr>, Inr (success resp))))"

text \<open>\<^verbatim>\<open>Manager.close\<close>.\<close>

definition Manager_close :: "('k, 's, 'cb) manager \<Rightarrow> ('k, 's, 'cb) manager \<times> error option" where
  "Manager_close m =
     (case protocol m of
        None \<Rightarrow> (m, None)
      | Some p \<Rightarrow> (case Connection_close p of (p', r) \<Rightarrow> (m\<lparr>protocol := Some p'\<rparr>, r)))"

section \<open>Sequences of calls\<close>

text \<open>A sequence of calls \<^verbatim>\<open>manager.register_event(pattern, callback)\<close>.\<close>

definition register_all ::
  "('k, 's, 'cb) deps \<Rightarrow> ('k, 's, 'cb) manager \<Rightarrow> (str \<times> 'cb) list \<Rightarrow> ('k, 's, 'cb) manager"
where
  "register_all D m regs = fold (\<lambda>(p, cb) m. fst (register_event D m p (Some cb))) regs m"

section \<open>Concrete inputs\<close>

text \<open>
  The line terminator of the protocol, a decoder of blocks of \<^verbatim>\<open>Key: Value\<close> lines, and
  \<^verbatim>\<open>fnmatch\<close> on patterns without a bracket expression (\<^verbatim>\<open>*\<close> is 42, \<^verbatim>\<open>?\<close> is 63),
  to run the functions above on concrete inputs.
\<close>

definition CRLF :: str where
  "CRLF = [13, 10]"

fun glob :: "str \<Rightarrow> str \<Rightarrow> bool" where
  "glob [] [] = True"
| "glob [] (c # s) = False"
| "glob (p # ps) [] = (p = 42 \<and> glob ps [])"
| "glob (p # ps) (c # s) =
     (if p = 42 then glob ps (c # s) \<or> glob (p # ps) s else (p = 63 \<or> p = c) \<and> glob ps s)"

definition key_value :: "str \<Rightarrow> str \<times> str" where
  "key_value line =
     (case str_split (of_string '': '') [] line of
        k # v # rest \<Rightarrow> (k, v)
      | _ \<Rightarrow> (line, []))"

definition sample_from_line :: "str \<Rightarrow> str message option" where
  "sample_from_line line =
     (if line = [] then None
      else (let fields = map key_value (str_split CRLF [] line)
            in Some \<lparr>headers = fields,
                     msg_id = (case map_of fields (of_string ''ActionID'') of
                                 None \<Rightarrow> [] | Some i \<Rightarrow> i),
                     has_event = (map_of fields (of_string ''Event'') \<noteq> None),
                     event = (case map_of fields (of_string ''Event'') of
                                None \<Rightarrow> [] | Some e \<Rightarrow> e),
                     success = (case map_of fields (of_string ''Response'') of
                                  None \<Rightarrow> True | Some r \<Rightarrow> r = of_string ''Success''),
                     manager = None\<rparr>))"

definition sample_deps :: "(str, str message list, nat) deps" where
  "sample_deps =
     \<lparr>EOL = CRLF,
      from_line = sample_from_line,
      mk_action = (\<lambda>is_command d as_list.
         \<lparr>act_id = (case map_of d (of_string ''ActionID'') of None \<Rightarrow> of_string ''1'' | Some i \<Rightarrow> i),
          future = Pending, act_state = []\<rparr>),
      serialize = (\<lambda>a. map of_nat (of_string ''ActionID: '' @ act_id a @ CRLF @ CRLF)),
      add_message = (\<lambda>a m. (True, Resolved (Single m), act_state a @ [m])),
      act_update = (\<lambda>a kwargs. a),
      compile = glob,
      raises = (\<lambda>cb ev. False)\<rparr>"

definition sample_transport :: transport where
  "sample_transport = \<lparr>t_closed = False, t_written = [], t_close_raises = False\<rparr>"

definition sample_connection :: "(str, str message list) connection" where
  "sample_connection =
     (Connection_connection_made sample_transport)\<lparr>factory := Some 0, encoding := Some Utf8\<rparr>"

definition sample_manager :: "(str, str message list, nat) manager" where
  "sample_manager = Manager_init defaults"

definition sample_action :: "(str, str message list) action" where
  "sample_action = \<lparr>act_id = of_string ''7'', future = Pending, act_state = []\<rparr>"

definition sample_event :: "string \<Rightarrow> str message" where
  "sample_event name =
     \<lparr>headers = [(of_string ''Event'', of_string name)], msg_id = [], has_event = True,
      event = of_string name, success = True, manager = None\<rparr>"

definition sample_response :: "str message" where
  "sample_response =
     \<lparr>headers = [(of_string ''Response'', of_string ''Success''),
                 (of_string ''ActionID'', of_string ''7'')],
      msg_id = of_string ''7'', has_event = False, event = [], success = True, manager = None\<rparr>"

section \<open>The calls made by a dispatch\<close>

lemma invoke_no_raise:
  "\<forall>cb\<in>set cbs. \<not> raises D cb ev \<Longrightarrow>
   invoke D self ev cbs = (map (\<lambda>cb. (cb, ev, self)) cbs, None)"
  by (induction cbs) auto

lemma invoke_each_no_raise:
  "\<forall>cb\<in>set cbs. \<not> raises D cb ev \<Longrightarrow>
   invoke_each D self ev cbs outer =
     (concat (map (\<lambda>_. map (\<lambda>cb. (cb, ev, self)) cbs) outer), None)"
  by (induction outer) (auto simp: invoke_no_raise)

lemma dispatch_loop_matches:
  "\<forall>(p, rx)\<in>set entries. rx (event ev) \<longrightarrow> (\<forall>cb\<in>set (cbs p). \<not> raises D cb ev) \<Longrightarrow>
   fst (dispatch_loop D self cbs ev entries) = map fst (filter (\<lambda>(p, rx). rx (event ev)) entries) \<and>
   snd (snd (dispatch_loop D self cbs ev entries)) = None"
  by (induction entries) (auto simp: invoke_each_no_raise split: prod.splits)

lemma patterns_register_all:
  "patterns (register_all D m regs) = patterns m @ map (\<lambda>(p, cb). (p, compile D p)) regs"
  unfolding register_all_def
  by (induction regs arbitrary: m) (auto simp: register_event_def inner_register_event_def)

section \<open>The claims\<close>

text \<open>
  C3. The claim: for every event and registry, \<^verbatim>\<open>Manager.dispatch\<close> invokes each callback
  exactly once per matching registration, in registration order. The code does not: with
  the pattern \<^verbatim>\<open>Peer*\<close> registered twice, for the callbacks 1 and 2, the event
  \<^verbatim>\<open>PeerStatus\<close> makes eight calls, 1, 2, 1, 2, 1, 2, 1, 2. Each of the two entries of
  \<^verbatim>\<open>patterns\<close> runs the loop over \<^verbatim>\<open>callbacks['Peer*']\<close> (both callbacks), and the loop is
  nested in a copy of itself (lines 245 and 246).
\<close>

theorem dispatch_repeats_calls:
  "fst (snd (dispatch sample_deps 0
       (register_all sample_deps sample_manager [(of_string ''Peer*'', 1), (of_string ''Peer*'', 2)])
       (sample_event ''PeerStatus''))) =
   map (\<lambda>cb. (cb, (sample_event ''PeerStatus'')\<lparr>manager := Some 0\<rparr>, 0)) [1, 2, 1, 2, 1, 2, 1, 2]"
  by code_simp

text \<open>
  C4. The claim: when the connection is lost, the completion handle of every pending
  action is failed with a connection-closed error. The code has no such step: the
  counterexample is a connection with one pending action, which \<^verbatim>\<open>connection_lost\<close>
  leaves in the table with its handle still pending. What holds: \<^verbatim>\<open>connection_lost\<close>
  leaves the table of pending actions, and so every action in it, as it was.
\<close>

theorem connection_lost_pending_counterexample:
  "responses (fst (connection_lost (sample_connection\<lparr>responses := [of_string ''7'' \<mapsto> sample_action]\<rparr>)))
     (of_string ''7'') = Some sample_action \<and> future sample_action = Pending"
  by (simp add: connection_lost_def Connection_close_def sample_connection_def
      Connection_connection_made_def sample_transport_def sample_action_def)

theorem connection_lost_keeps_pending:
  "responses (fst (connection_lost c)) = responses c"
  by (simp add: connection_lost_def Connection_close_def split: option.splits)

text \<open>
  C5. The claim: the reconnect delay is a scheduled, non-blocking timer, and
  \<^verbatim>\<open>connection_lost\<close> never blocks. The code: on an open connection, \<^verbatim>\<open>connection_lost\<close>
  closes it, then calls \<^verbatim>\<open>time.sleep(2)\<close>, which blocks, then \<^verbatim>\<open>factory.connect()\<close>; no
  \<^verbatim>\<open>call_later\<close> is made (\<^verbatim>\<open>Manager.connection_made\<close> does schedule its retry with
  \<^verbatim>\<open>loop.call_later(2, self.connect)\<close>).
\<close>

theorem connection_lost_sleeps:
  "connection_lost sample_connection =
     (sample_connection\<lparr>transport := sample_transport\<lparr>t_closed := True\<rparr>, closed := True\<rparr>,
      [Sleep 2, Connect 0], None)"
  by (simp add: connection_lost_def Connection_close_def sample_connection_def
      Connection_connection_made_def sample_transport_def)

text \<open>
  C6. When no callback called raises, \<^verbatim>\<open>Manager.dispatch\<close> returns the patterns of the
  entries of \<^verbatim>\<open>patterns\<close> whose matcher matches \<^verbatim>\<open>event.event\<close>, in the order of the
  list; and every registration adds one entry at the end of that list, so that a pattern
  is returned once per registration that matches. The witness is the example of the
  claim: \<^verbatim>\<open>Peer*\<close> registered once gives \<^verbatim>\<open>['Peer*']\<close> for \<^verbatim>\<open>PeerStatus\<close> and \<^verbatim>\<open>[]\<close> for
  \<^verbatim>\<open>NoPeerStatus\<close>; registered twice, it is returned twice.
\<close>

theorem dispatch_returns_matches:
  assumes "\<forall>(p, rx)\<in>set (patterns m). rx (event ev) \<longrightarrow>
             (\<forall>cb\<in>set (callbacks m p). \<not> raises D cb (ev\<lparr>manager := Some self\<rparr>))"
  shows "snd (snd (dispatch D self m ev)) =
           Inr (map fst (filter (\<lambda>(p, rx). rx (event ev)) (patterns m))) \<and>
         patterns (register_all D m regs) = patterns m @ map (\<lambda>(p, cb). (p, compile D p)) regs"
proof -
  let ?ev = "ev\<lparr>manager := Some self\<rparr>"
  from assms have "\<forall>(p, rx)\<in>set (patterns m). rx (event ?ev) \<longrightarrow>
      (\<forall>cb\<in>set (callbacks m p). \<not> raises D cb ?ev)"
    by simp
  from dispatch_loop_matches [OF this, of self]
  have "snd (snd (dispatch D self m ev)) =
           Inr (map fst (filter (\<lambda>(p, rx). rx (event ev)) (patterns m)))"
    by (auto simp: dispatch_def Let_def split: prod.splits option.splits)
  then show ?thesis
    by (simp add: patterns_register_all)
qed

theorem dispatch_returns_matches_witness:
  "snd (snd (dispatch sample_deps 0 (register_all sample_deps sample_manager [(of_string ''Peer*'', 1)])
       (sample_event ''PeerStatus''))) = Inr [of_string ''Peer*''] \<and>
   snd (snd (dispatch sample_deps 0 (register_all sample_deps sample_manager [(of_string ''Peer*'', 1)])
       (sample_event ''NoPeerStatus''))) = Inr [] \<and>
   snd (snd (dispatch sample_deps 0
       (register_all sample_deps sample_manager [(of_string ''Peer*'', 1), (of_string ''Peer*'', 2)])
       (sample_event ''PeerStatus''))) = Inr [of_string ''Peer*'', of_string ''Peer*'']"
proof -
  have r: "raises sample_deps = (\<lambda>cb ev. False)"
    by (simp add: sample_deps_def)
  have p1: "map fst (filter (\<lambda>(p, rx). rx (event (sample_event ''PeerStatus'')))
      (patterns (register_all sample_deps sample_manager [(of_string ''Peer*'', 1)]))) = [of_string ''Peer*'']"
    by code_simp
  have p2: "map fst (filter (\<lambda>(p, rx). rx (event (sample_event ''NoPeerStatus'')))
      (patterns (register_all sample_deps sample_manager [(of_string ''Peer*'', 1)]))) = []"
    by code_simp
  have p3: "map fst (filter (\<lambda>(p, rx). rx (event (sample_event ''PeerStatus'')))
      (patterns (register_all sample_deps sample_manager [(of_string ''Peer*'', 1), (of_string ''Peer*'', 2)])))
      = [of_string ''Peer*'', of_string ''Peer*'']"
    by code_simp
  show ?thesis
    using dispatch_returns_matches [of "register_all sample_deps sample_manager [(of_string ''Peer*'', 1)]"
        "sample_event ''PeerStatus''" sample_deps 0 "[]"]
      dispatch_returns_matches [of "register_all sample_deps sample_manager [(of_string ''Peer*'', 1)]"
        "sample_event ''NoPeerStatus''" sample_deps 0 "[]"]
      dispatch_returns_matches [of "register_all sample_deps sample_manager [(of_string ''Peer*'', 1), (of_string ''Peer*'', 2)]"
        "sample_event ''PeerStatus''" sample_deps 0 "[]"]
    unfolding r p1 p2 p3 by simp
qed

text \<open>
  C8. \<^verbatim>\<open>register_event(p)\<close>, the callback omitted, leaves the manager as it is and
  returns a function that, applied to a callback \<open>f\<close> on any later state of the manager,
  appends the entry of \<open>p\<close> with the matcher compiled from \<open>p\<close>, records \<open>f\<close> under \<open>p\<close>
  and returns \<open>f\<close>; \<^verbatim>\<open>register_event(p, f)\<close> does the same at once and returns \<open>f\<close>.
\<close>

theorem register_event_registrar:
  "(\<exists>r. register_event D m p None = (m, Registrar r) \<and>
        (\<forall>m' f. r m' f =
           (m'\<lparr>patterns := patterns m' @ [(p, compile D p)],
               callbacks := (callbacks m')(p := callbacks m' p @ [f])\<rparr>, f))) \<and>
   register_event D m p (Some f) =
     (m\<lparr>patterns := patterns m @ [(p, compile D p)],
        callbacks := (callbacks m)(p := callbacks m p @ [f])\<rparr>, Returned f)"
  by (simp add: register_event_def inner_register_event_def)

text \<open>
  C9. \<^verbatim>\<open>Connection.close\<close> on a closed connection changes nothing and raises nothing;
  after any call the connection is closed, so a second call is such a call.
  \<^verbatim>\<open>Manager.close\<close> without a protocol changes nothing and raises nothing; with a
  protocol it is \<^verbatim>\<open>Connection.close\<close> on that protocol, and a second call changes
  nothing and raises nothing.
\<close>

theorem close_idempotent:
  "(closed c \<longrightarrow> Connection_close c = (c, None)) \<and>
   closed (fst (Connection_close c)) \<and>
   Connection_close (fst (Connection_close c)) = (fst (Connection_close c), None) \<and>
   (protocol m = None \<longrightarrow> Manager_close m = (m, None)) \<and>
   (protocol m = Some p \<longrightarrow>
      Manager_close m = (m\<lparr>protocol := Some (fst (Connection_close p))\<rparr>, snd (Connection_close p)) \<and>
      Manager_close (fst (Manager_close m)) = (fst (Manager_close m), None))"
  by (auto simp: Connection_close_def Manager_close_def split: prod.splits)

theorem close_idempotent_witness:
  "closed (sample_connection\<lparr>closed := True\<rparr>) \<and>
   Connection_close (sample_connection\<lparr>closed := True\<rparr>) = (sample_connection\<lparr>closed := True\<rparr>, None) \<and>
   protocol (sample_manager :: (str, str message list, nat) manager) = None \<and>
   Manager_close sample_manager = (sample_manager, None) \<and>
   protocol (sample_manager\<lparr>protocol := Some sample_connection\<rparr>) = Some sample_connection \<and>
   Manager_close (sample_manager\<lparr>protocol := Some sample_connection\<rparr>) =
     (sample_manager\<lparr>protocol := Some (sample_connection\<lparr>transport := sample_transport\<lparr>t_closed := True\<rparr>, closed := True\<rparr>)\<rparr>, None)"
  using close_idempotent [of "sample_connection\<lparr>closed := True\<rparr>" sample_manager]
    close_idempotent [of sample_connection "sample_manager\<lparr>protocol := Some sample_connection\<rparr>" sample_connection]
  by (simp add: sample_manager_def Manager_init_def sample_connection_def Connection_connection_made_def
      Connection_close_def sample_transport_def)

text \<open>
  C10. The claim: no operation changes a message once it is built, \<^verbatim>\<open>Manager.dispatch\<close>
  included. The code: line 240, \<^verbatim>\<open>event.manager = self\<close>, changes the event; the
  counterexample is an event dispatched once. What holds: \<^verbatim>\<open>Manager.dispatch\<close> changes
  the event in its attribute \<^verbatim>\<open>manager\<close> only, which it sets to the dispatching manager;
  the content of the event and what is derived from it stay as built.
\<close>

theorem dispatch_sets_manager_counterexample:
  "fst (dispatch sample_deps 0 sample_manager (sample_event ''PeerStatus'')) \<noteq> sample_event ''PeerStatus''"
  by (simp add: dispatch_def Let_def sample_event_def split: prod.splits option.splits)

theorem dispatch_sets_only_manager:
  "fst (dispatch D self m ev) = ev\<lparr>manager := Some self\<rparr>"
  by (simp add: dispatch_def Let_def split: prod.splits option.splits)

end
